theory Spec2Isabelle
  imports Main "HOL-Library.Word"
begin

unbundle bit_operations_syntax

section \<open>Go values used by package docker\<close>

subsection \<open>Errors\<close>

text \<open>
  A Go error is either a value made by \<open>errors.New\<close> or one made by \<open>fmt.Errorf\<close> with
  \<open>%w\<close> verbs, which keeps the formatted message and the list of wrapped errors.
  Values made by \<open>errors.New\<close> are told apart by their text: the sentinels of the package
  have pairwise different texts.
\<close>

datatype goerr = New string | Errorf string "goerr list"

fun Error :: "goerr \<Rightarrow> string" where
  "Error (New m) = m"
| "Error (Errorf m ws) = m"

text \<open>\<open>errors.Is\<close>: the error itself or anything it wraps, at any depth.\<close>

fun Is :: "goerr \<Rightarrow> goerr \<Rightarrow> bool" where
  "Is (New m) t = (New m = t)"
| "Is (Errorf m ws) t = (Errorf m ws = t \<or> list_ex (\<lambda>w. Is w t) ws)"

definition ClientBuildErr :: goerr where
  "ClientBuildErr = New ''failed to create Docker client''"

definition ImageBuildErr :: goerr where
  "ImageBuildErr = New ''failed to build image''"

definition BuildDockerAPIErr :: goerr where
  "BuildDockerAPIErr = New ''docker api build error''"

definition DockerfileNotFoundErr :: goerr where
  "DockerfileNotFoundErr = New ''dockerfile not found''"

definition ContextDirReadErr :: goerr where
  "ContextDirReadErr = New ''failed to read folder content to build request''"

definition ContextFilesReadErr :: goerr where
  "ContextFilesReadErr = New ''failed to add file to build request''"

text \<open>\<open>fmt.Errorf("%w: %w", a, b)\<close>\<close>

definition errorfColon :: "goerr \<Rightarrow> goerr \<Rightarrow> goerr" where
  "errorfColon a b = Errorf (Error a @ '': '' @ Error b) [a, b]"

text \<open>\<open>fmt.Errorf("%w (<phase> %s):%w", a, name, b)\<close>, the phase being the words of the
  format string: \<open>opening\<close>, \<open>reading\<close>, \<open>writing header\<close>, \<open>writing content\<close>.\<close>

definition errorfPhase :: "string \<Rightarrow> goerr \<Rightarrow> string \<Rightarrow> goerr \<Rightarrow> goerr" where
  "errorfPhase phase a name b =
     Errorf (Error a @ '' ('' @ phase @ '' '' @ name @ ''):'' @ Error b) [a, b]"

text \<open>\<open>fmt.Errorf("%w (flushing header):%w", a, b)\<close>\<close>

definition errorfFlush :: "goerr \<Rightarrow> goerr \<Rightarrow> goerr" where
  "errorfFlush a b = Errorf (Error a @ '' (flushing header):'' @ Error b) [a, b]"

text \<open>What a call ends with: a value, an error, or a run-time panic.\<close>

datatype 'a outcome = Returned 'a | Failed goerr | Panicked string

subsection \<open>The file system\<close>

type_synonym bytes = "8 word list"

text \<open>\<open>fs.FileMode\<close> is a \<open>uint32\<close>: permission bits in the low nine bits, flag bits above.\<close>

type_synonym FileMode = "32 word"

definition ModeDir :: FileMode where
  "ModeDir = push_bit 31 1"





definition ModeSetuid :: FileMode where
  "ModeSetuid = push_bit 23 1"







text \<open>
  An \<open>os.DirEntry\<close> as the builder uses it: \<open>Name()\<close>, \<open>IsDir()\<close>, and \<open>Info()\<close>, which
  returns either an error (and then a nil \<open>FileInfo\<close>) or a \<open>FileInfo\<close>, of which only
  \<open>Mode()\<close> is read.
\<close>

record DirEntry =
  Name :: string
  IsDir :: bool
  Info :: "goerr + FileMode"

text \<open>
  What a path leads to. A directory has the result of listing it; a file has the result of
  opening it and, once open, the result of reading it to the end.
\<close>

datatype node =
    DirNode "goerr + DirEntry list"
  | FileNode "goerr + (goerr + bytes)"

text \<open>
  The world outside the program: the working directory (\<open>os.Getwd\<close> can fail), the nodes
  by path, and the faults of the sink under the tar writer. Paths are taken as already
  clean; the lexical normalisation of \<open>filepath.Clean\<close> is not modelled.
\<close>

record env =
  cwd :: "goerr + string"
  nodes :: "string \<Rightarrow> node option"
  hdrFault :: "string \<Rightarrow> goerr option"
  dataFault :: "string \<Rightarrow> goerr option"
  padFault :: "goerr option"

definition IsAbs :: "string \<Rightarrow> bool" where
  "IsAbs p = (case p of [] \<Rightarrow> False | c # cs \<Rightarrow> c = CHR ''/'')"

text \<open>\<open>filepath.Join\<close> of two elements: empty elements are ignored.\<close>

definition Join :: "string \<Rightarrow> string \<Rightarrow> string" where
  "Join a b = (if a = [] then b else if b = [] then a else a @ ''/'' @ b)"

text \<open>\<open>filepath.Abs\<close>: an absolute path is returned as it is, a relative one is joined to
  the working directory, and fails when that cannot be determined.\<close>

definition Abs :: "env \<Rightarrow> string \<Rightarrow> goerr + string" where
  "Abs e p = (if IsAbs p then Inr p
              else case cwd e of Inl err \<Rightarrow> Inl err | Inr wd \<Rightarrow> Inr (Join wd p))"

text \<open>How the operating system resolves a path given to a system call.\<close>

definition resolve :: "env \<Rightarrow> string \<Rightarrow> node option" where
  "resolve e p = (if IsAbs p then nodes e p
                  else case cwd e of Inl err \<Rightarrow> None | Inr wd \<Rightarrow> nodes e (Join wd p))"

definition ENOENT :: "string \<Rightarrow> string \<Rightarrow> goerr" where
  "ENOENT op p = New (op @ '' '' @ p @ '': no such file or directory'')"

definition ENOTDIR :: "string \<Rightarrow> string \<Rightarrow> goerr" where
  "ENOTDIR op p = New (op @ '' '' @ p @ '': not a directory'')"

definition EISDIR :: "string \<Rightarrow> string \<Rightarrow> goerr" where
  "EISDIR op p = New (op @ '' '' @ p @ '': is a directory'')"

text \<open>\<open>os.ReadDir\<close>\<close>

definition ReadDir :: "env \<Rightarrow> string \<Rightarrow> goerr + DirEntry list" where
  "ReadDir e p = (case resolve e p of
       None \<Rightarrow> Inl (ENOENT ''open'' p)
     | Some (FileNode f) \<Rightarrow> Inl (ENOTDIR ''readdirent'' p)
     | Some (DirNode r) \<Rightarrow> r)"

text \<open>\<open>os.Open\<close> followed by \<open>io.ReadAll\<close>: the outer result is that of opening, the inner
  one that of reading. A directory opens, and reading it fails.\<close>

definition Open :: "env \<Rightarrow> string \<Rightarrow> goerr + (goerr + bytes)" where
  "Open e p = (case resolve e p of
       None \<Rightarrow> Inl (ENOENT ''open'' p)
     | Some (FileNode f) \<Rightarrow> f
     | Some (DirNode r) \<Rightarrow> Inr (Inl (EISDIR ''read'' p)))"

section \<open>readFile\<close>

text \<open>
  The file is opened at \<open>filepath.Join(srcFolder, fileName)\<close> and read to the end; each
  failure is wrapped with its phase and the file name. The deferred \<open>f.Close()\<close> and the
  \<open>slog\<close> call do not change the result.
\<close>

definition readFile :: "env \<Rightarrow> string \<Rightarrow> string \<Rightarrow> goerr + bytes" where
  "readFile e srcFolder fileName =
     (case Open e (Join srcFolder fileName) of
        Inl err \<Rightarrow> Inl (errorfPhase ''opening'' ContextFilesReadErr fileName err)
      | Inr f \<Rightarrow>
          (case f of
             Inl err \<Rightarrow> Inl (errorfPhase ''reading'' ContextFilesReadErr fileName err)
           | Inr b \<Rightarrow> Inr b))"

section \<open>The tar writer\<close>

text \<open>
  \<open>tar.Header\<close> with the fields the builder sets; \<open>Size\<close> and \<open>Mode\<close> are \<open>int64\<close>.
\<close>

record Header =
  Header_Name :: string
  Header_Size :: int
  Header_Mode :: int

text \<open>
  What the writer puts into the buffer, in order: an encoded header, the bytes of a file,
  the zero bytes that pad a file to a multiple of 512, and the 512-byte zero block; two of
  these blocks are the end-of-archive marker.
\<close>

datatype tar_item =
    HeaderRec Header
  | Content bytes
  | Padding nat
  | ZeroBlock

text \<open>
  \<open>tar.Writer\<close>: the buffer it writes to, the padding owed for the current entry, the
  bytes the current entry still expects, the name of the current entry and the sticky
  error.
\<close>

record Writer =
  buf :: "tar_item list"
  pad :: nat
  nb :: nat
  cur :: string
  err :: "goerr option"

definition NewWriter :: Writer where
  "NewWriter = \<lparr>buf = [], pad = 0, nb = 0, cur = [], err = None\<rparr>"

definition ErrWriteTooLong :: goerr where
  "ErrWriteTooLong = New ''archive/tar: write too long''"

definition ErrWriteAfterClose :: goerr where
  "ErrWriteAfterClose = New ''archive/tar: write after close''"

definition ErrMissedWriting :: goerr where
  "ErrMissedWriting = New ''archive/tar: missed writing bytes''"

definition blockPadding :: "nat \<Rightarrow> nat" where
  "blockPadding n = (512 - n mod 512) mod 512"

text \<open>
  The four operations return the error of the call, if any, and the writer after it. The
  sink can fail when padding, a header or content is written; the write of the two zero
  blocks in \<open>Close\<close> is taken not to fail, its result being discarded by the builder. The
  text of \<open>ErrMissedWriting\<close> leaves out the number of bytes.
\<close>

definition Flush :: "env \<Rightarrow> Writer \<Rightarrow> goerr option \<times> Writer" where
  "Flush e tw =
     (case err tw of
        Some er \<Rightarrow> (Some er, tw)
      | None \<Rightarrow>
          if nb tw > 0 then (Some ErrMissedWriting, tw)
          else (case padFault e of
                  Some er \<Rightarrow> (Some er, tw\<lparr>err := Some er\<rparr>)
                | None \<Rightarrow>
                    (None, tw\<lparr>buf := buf tw @ (if pad tw = 0 then [] else [Padding (pad tw)]),
                               pad := 0\<rparr>)))"

definition WriteHeader :: "env \<Rightarrow> Writer \<Rightarrow> Header \<Rightarrow> goerr option \<times> Writer" where
  "WriteHeader e tw hdr =
     (case Flush e tw of
        (Some er, tw') \<Rightarrow> (Some er, tw')
      | (None, tw') \<Rightarrow>
          (case hdrFault e (Header_Name hdr) of
             Some er \<Rightarrow> (Some er, tw'\<lparr>err := Some er\<rparr>)
           | None \<Rightarrow>
               (None, tw'\<lparr>buf := buf tw' @ [HeaderRec hdr],
                          pad := blockPadding (nat (Header_Size hdr)),
                          nb := nat (Header_Size hdr),
                          cur := Header_Name hdr\<rparr>)))"

definition Write :: "env \<Rightarrow> Writer \<Rightarrow> bytes \<Rightarrow> goerr option \<times> Writer" where
  "Write e tw b =
     (case err tw of
        Some er \<Rightarrow> (Some er, tw)
      | None \<Rightarrow>
          (let overwrite = (length b > nb tw); b' = take (nb tw) b in
           case (if b' = [] then None else dataFault e (cur tw)) of
             Some er \<Rightarrow> (Some er, tw\<lparr>err := Some er\<rparr>)
           | None \<Rightarrow>
               (if overwrite then Some ErrWriteTooLong else None,
                tw\<lparr>buf := buf tw @ (if b' = [] then [] else [Content b']),
                   nb := nb tw - length b'\<rparr>)))"

definition Close :: "env \<Rightarrow> Writer \<Rightarrow> goerr option \<times> Writer" where
  "Close e tw =
     (case err tw of
        Some er \<Rightarrow> (if er = ErrWriteAfterClose then None else Some er, tw)
      | None \<Rightarrow>
          (case Flush e tw of
             (Some er, tw') \<Rightarrow> (Some er, tw'\<lparr>err := Some ErrWriteAfterClose\<rparr>)
           | (None, tw') \<Rightarrow>
               (None, tw'\<lparr>buf := buf tw' @ [ZeroBlock, ZeroBlock],
                          err := Some ErrWriteAfterClose\<rparr>)))"

section \<open>buildRequestReaderWithAllFiles\<close>

text \<open>
  The body of the \<open>range\<close> loop for one directory entry. The error of \<open>d.Info()\<close> is
  dropped (\<open>i, _ := d.Info()\<close>), and \<open>i.Mode()\<close> on the nil \<open>FileInfo\<close> of a failed call
  is a run-time panic.
\<close>

definition addFile :: "env \<Rightarrow> string \<Rightarrow> Writer \<Rightarrow> DirEntry \<Rightarrow> unit outcome \<times> Writer" where
  "addFile e src tw d =
     (if IsDir d then (Returned (), tw)
      else case readFile e src (Name d) of
        Inl er \<Rightarrow> (Failed (errorfPhase ''opening'' ContextFilesReadErr (Name d) er), tw)
      | Inr b \<Rightarrow>
          (case Info d of
             Inl ignored \<Rightarrow> (Panicked ''invalid memory address or nil pointer dereference'', tw)
           | Inr m \<Rightarrow>
               (let tarHeader = \<lparr>Header_Name = Name d,
                                 Header_Size = int (length b),
                                 Header_Mode = uint m\<rparr> in
                case WriteHeader e tw tarHeader of
                  (Some er, tw1) \<Rightarrow>
                    (Failed (errorfPhase ''writing header'' ContextFilesReadErr (Name d) er), tw1)
                | (None, tw1) \<Rightarrow>
                    (case Write e tw1 b of
                       (Some er, tw2) \<Rightarrow>
                         (Failed (errorfPhase ''writing content'' ContextFilesReadErr (Name d) er),
                          tw2)
                     | (None, tw2) \<Rightarrow> (Returned (), tw2)))))"

fun rangeDir :: "env \<Rightarrow> string \<Rightarrow> Writer \<Rightarrow> DirEntry list \<Rightarrow> unit outcome \<times> Writer" where
  "rangeDir e src tw [] = (Returned (), tw)"
| "rangeDir e src tw (d # ds) =
     (case addFile e src tw d of
        (Returned u, tw') \<Rightarrow> rangeDir e src tw' ds
      | (Failed er, tw') \<Rightarrow> (Failed er, tw')
      | (Panicked p, tw') \<Rightarrow> (Panicked p, tw'))"

text \<open>
  From \<open>os.ReadDir\<close> to the \<open>return\<close> statement. The value returned on success is
  \<open>bytes.NewReader(buf.Bytes())\<close>: the content of the buffer at that moment.
\<close>

definition allFilesBody :: "env \<Rightarrow> string \<Rightarrow> string \<Rightarrow> Writer \<Rightarrow> tar_item list outcome \<times> Writer"
  where
  "allFilesBody e src srcAbs tw =
     (case ReadDir e srcAbs of
        Inl er \<Rightarrow> (Failed (errorfColon ContextDirReadErr er), tw)
      | Inr dir \<Rightarrow>
          (case rangeDir e src tw dir of
             (Failed er, tw1) \<Rightarrow> (Failed er, tw1)
           | (Panicked p, tw1) \<Rightarrow> (Panicked p, tw1)
           | (Returned u, tw1) \<Rightarrow>
               (case Flush e tw1 of
                  (Some er, tw2) \<Rightarrow> (Failed (errorfFlush ContextFilesReadErr er), tw2)
                | (None, tw2) \<Rightarrow> (Returned (buf tw2), tw2))))"

text \<open>
  The whole call: its result, and the buffer as the deferred \<open>tw.Close()\<close> leaves it. The
  deferred call runs after the operand of \<open>return\<close> has been evaluated, and the function
  has no named result, so it cannot change what the caller receives.
\<close>

definition allFilesRun :: "env \<Rightarrow> string \<Rightarrow> tar_item list outcome \<times> tar_item list" where
  "allFilesRun e src =
     (case Abs e src of
        Inl er \<Rightarrow> (Failed (errorfColon DockerfileNotFoundErr er), [])
      | Inr srcAbs \<Rightarrow>
          (case allFilesBody e src srcAbs NewWriter of
             (r, tw) \<Rightarrow> (r, buf (snd (Close e tw)))))"

definition buildRequestReaderWithAllFiles :: "env \<Rightarrow> string \<Rightarrow> tar_item list outcome" where
  "buildRequestReaderWithAllFiles e src = fst (allFilesRun e src)"

definition bufferAfterReturn :: "env \<Rightarrow> string \<Rightarrow> tar_item list" where
  "bufferAfterReturn e src = snd (allFilesRun e src)"

text \<open>Reading an archive back: its entries, each a header with the content that follows.\<close>

fun entriesOf :: "tar_item list \<Rightarrow> (Header \<times> bytes) list" where
  "entriesOf [] = []"
| "entriesOf (HeaderRec h # Content c # rest) = (h, c) # entriesOf rest"
| "entriesOf (HeaderRec h # rest) = (h, []) # entriesOf rest"
| "entriesOf (x # rest) = entriesOf rest"

text \<open>An archive is terminated when it ends with the end-of-archive marker.\<close>

definition terminated :: "tar_item list \<Rightarrow> bool" where
  "terminated s = (length s \<ge> 2 \<and> drop (length s - 2) s = [ZeroBlock, ZeroBlock])"

section \<open>Client.Build\<close>

text \<open>\<open>types.ImageBuildOptions\<close>, of which the code sets \<open>Tags\<close>.\<close>

record ImageBuildOptions =
  Tags :: "string list"

text \<open>
  The body of the response of the build API: the bytes it delivers, and how it ends,
  \<open>None\<close> for end-of-stream and \<open>Some\<close> for a read error.
\<close>

record LogStream =
  data :: string
  ending :: "goerr option"

text \<open>The Docker client: what its \<open>ImageBuild\<close> answers to a context and options.\<close>

record Client =
  ImageBuild :: "tar_item list \<Rightarrow> ImageBuildOptions \<Rightarrow> goerr + LogStream"

subsection \<open>bufio.Scanner with the default split function and buffer\<close>

definition MaxScanTokenSize :: nat where
  "MaxScanTokenSize = 64 * 1024"

definition ErrTooLong :: goerr where
  "ErrTooLong = New ''bufio.Scanner: token too long''"

definition newline :: char where
  "newline = CHR 0x0A"

definition dropCR :: "string \<Rightarrow> string" where
  "dropCR s = (if s \<noteq> [] \<and> last s = CHR 0x0D then butlast s else s)"

text \<open>
  All the tokens \<open>Scan\<close> yields and what \<open>Err\<close> returns afterwards. A line ends at a
  newline; a last line without one is yielded when the stream ends, also when it ends with
  an error. The buffer holds \<open>MaxScanTokenSize\<close> bytes: when that many bytes hold no
  newline, scanning stops with \<open>ErrTooLong\<close>. (The stream is taken to report its end by a
  read of its own, after the last bytes.)
\<close>

function scanLines :: "string \<Rightarrow> goerr option \<Rightarrow> string list \<times> goerr option" where
  "scanLines d en =
     (if length (takeWhile (\<lambda>c. c \<noteq> newline) d) \<ge> MaxScanTokenSize then ([], Some ErrTooLong)
      else case dropWhile (\<lambda>c. c \<noteq> newline) d of
             [] \<Rightarrow> (if d = [] then [] else [dropCR d], en)
           | c # rest \<Rightarrow>
               (case scanLines rest en of
                  (ts, er) \<Rightarrow> (dropCR (takeWhile (\<lambda>c. c \<noteq> newline) d) # ts, er)))"
  by pat_completeness auto
termination
proof (relation "measure (\<lambda>(d, en). length d)")
  show "wf (measure (\<lambda>(d, en). length d))" by simp
next
  fix d :: string and en :: "goerr option" and c rest
  assume "dropWhile (\<lambda>c. c \<noteq> newline) d = c # rest"
  then have "length (c # rest) \<le> length d"
    by (metis length_dropWhile_le)
  then show "((rest, en), (d, en)) \<in> measure (\<lambda>(d, en). length d)" by simp
qed

declare scanLines.simps [simp del]

text \<open>What a run of \<open>Build\<close> does: the arguments of its \<open>fmt.Println\<close> calls, the calls
  of the build API it made, and what it ended with. Closing the response body, which is
  deferred, changes none of them.\<close>

record BuildRun =
  out :: "string list"
  requests :: "(tar_item list \<times> ImageBuildOptions) list"
  result :: "unit outcome"

definition Build :: "Client \<Rightarrow> env \<Rightarrow> string \<Rightarrow> BuildRun" where
  "Build c e src =
     (case buildRequestReaderWithAllFiles e src of
        Failed er \<Rightarrow>
          \<lparr>out = [], requests = [], result = Failed (errorfColon ImageBuildErr er)\<rparr>
      | Panicked p \<Rightarrow> \<lparr>out = [], requests = [], result = Panicked p\<rparr>
      | Returned dockerFileReader \<Rightarrow>
          (let opts = \<lparr>Tags = [''eldius/test-image'']\<rparr> in
           case ImageBuild c dockerFileReader opts of
             Inl er \<Rightarrow>
               \<lparr>out = [], requests = [(dockerFileReader, opts)],
                result = Failed (errorfColon BuildDockerAPIErr er)\<rparr>
           | Inr body \<Rightarrow>
               (case scanLines (data body) (ending body) of
                  (ts, scanErr) \<Rightarrow>
                    \<lparr>out = ts, requests = [(dockerFileReader, opts)],
                     result = (case scanErr of Some er \<Rightarrow> Failed er
                                             | None \<Rightarrow> Returned ())\<rparr>)))"

text \<open>
  The \<open>Run\<close> function of \<open>buildCmd\<close>: \<open>nc\<close> is what \<open>docker.NewClient()\<close> returned, \<open>args\<close>
  the positional arguments, of which cobra has checked that there is exactly one. An
  error from either call becomes a panic. The line that \<open>NewClient\<close> prints is not part
  of \<open>out\<close>.
\<close>

definition buildCmd_Run :: "goerr + Client \<Rightarrow> env \<Rightarrow> string list \<Rightarrow> BuildRun" where
  "buildCmd_Run nc e args =
     (case nc of
        Inl er \<Rightarrow> \<lparr>out = [], requests = [], result = Panicked (Error er)\<rparr>
      | Inr c \<Rightarrow>
          (let r = Build c e (args ! 0) in
           case result r of
             Failed er \<Rightarrow> r\<lparr>result := Panicked (Error er)\<rparr>
           | Returned u \<Rightarrow> r
           | Panicked p \<Rightarrow> r))"

text \<open>The lines of a stream: split at each newline, the carriage return before it
  dropped, a last line without newline included.\<close>

function linesOf :: "string \<Rightarrow> string list" where
  "linesOf d =
     (case dropWhile (\<lambda>c. c \<noteq> newline) d of
        [] \<Rightarrow> (if d = [] then [] else [d])
      | c # rest \<Rightarrow> takeWhile (\<lambda>c. c \<noteq> newline) d # linesOf rest)"
  by pat_completeness auto
termination
proof (relation "measure length")
  show "wf (measure length)" by simp
next
  fix d :: string and c rest
  assume "dropWhile (\<lambda>c. c \<noteq> newline) d = c # rest"
  then have "length (c # rest) \<le> length d"
    by (metis length_dropWhile_le)
  then show "(rest, d) \<in> measure length" by simp
qed

declare linesOf.simps [simp del]

section \<open>Notions used in the statements\<close>

text \<open>The header the builder makes for a directory entry with content \<open>b\<close> and mode \<open>m\<close>.\<close>

definition headerFor :: "DirEntry \<Rightarrow> bytes \<Rightarrow> FileMode \<Rightarrow> Header" where
  "headerFor d b m =
     \<lparr>Header_Name = Name d, Header_Size = int (length b), Header_Mode = uint m\<rparr>"

text \<open>An archive entry describes a directory entry: the file can be read, its info can be
  had, and the entry is the header for them followed by the content.\<close>

definition describes :: "env \<Rightarrow> string \<Rightarrow> DirEntry \<Rightarrow> Header \<times> bytes \<Rightarrow> bool" where
  "describes e src d hc =
     (case readFile e src (Name d) of
        Inl er \<Rightarrow> False
      | Inr b \<Rightarrow> (case Info d of Inl er \<Rightarrow> False | Inr m \<Rightarrow> hc = (headerFor d b m, b)))"

definition padItems :: "nat \<Rightarrow> tar_item list" where
  "padItems n = (if n = 0 then [] else [Padding n])"

definition fileItems :: "bytes \<Rightarrow> tar_item list" where
  "fileItems b = (if b = [] then [] else [Content b])"

section \<open>Example environments\<close>

definition exFileA :: DirEntry where
  "exFileA = \<lparr>Name = ''a.txt'', IsDir = False, Info = Inr 420\<rparr>"

definition exFileB :: DirEntry where
  "exFileB = \<lparr>Name = ''b.txt'', IsDir = False, Info = Inr 493\<rparr>"

definition exSub :: DirEntry where
  "exSub = \<lparr>Name = ''sub'', IsDir = True, Info = Inr (ModeDir OR 493)\<rparr>"

definition exLocked :: DirEntry where
  "exLocked = \<lparr>Name = ''locked.txt'', IsDir = False, Info = Inr 0\<rparr>"

definition exTorn :: DirEntry where
  "exTorn = \<lparr>Name = ''torn.txt'', IsDir = False, Info = Inr 420\<rparr>"

definition exHdr :: DirEntry where
  "exHdr = \<lparr>Name = ''hdr.txt'', IsDir = False, Info = Inr 420\<rparr>"

definition exDat :: DirEntry where
  "exDat = \<lparr>Name = ''dat.txt'', IsDir = False, Info = Inr 420\<rparr>"

definition exGone :: DirEntry where
  "exGone = \<lparr>Name = ''gone.txt'', IsDir = False,
              Info = Inl (New ''lstat /w/gone/gone.txt: no such file or directory'')\<rparr>"

text \<open>A regular file with the setuid bit and the permission bits \<open>0755\<close>.\<close>

definition exSuid :: DirEntry where
  "exSuid = \<lparr>Name = ''run.sh'', IsDir = False, Info = Inr (ModeSetuid OR 493)\<rparr>"

definition exHello :: bytes where
  "exHello = [104, 101, 108, 108, 111]"

text \<open>
  A working directory \<open>/w\<close> with the directories \<open>ctx\<close> (two files and a subdirectory),
  \<open>flat\<close> (two files), \<open>empty\<close>, and four directories holding \<open>a.txt\<close> and one file that
  fails: \<open>locked.txt\<close> cannot be opened, \<open>torn.txt\<close> cannot be read to the end,
  \<open>gone.txt\<close> has no file info any more, and the sink fails on the header of \<open>hdr.txt\<close>
  and on the content of \<open>dat.txt\<close>. The directory \<open>suid\<close> holds the one setuid file.
\<close>

definition exNodes :: "(string \<times> node) list" where
  "exNodes =
     [(''/w/ctx'', DirNode (Inr [exFileA, exFileB, exSub])),
      (''/w/ctx/a.txt'', FileNode (Inr (Inr exHello))),
      (''/w/ctx/b.txt'', FileNode (Inr (Inr []))),
      (''/w/ctx/sub'', DirNode (Inr [exFileA])),
      (''/w/ctx/sub/a.txt'', FileNode (Inr (Inr exHello))),
      (''/w/flat'', DirNode (Inr [exFileA, exFileB])),
      (''/w/flat/a.txt'', FileNode (Inr (Inr exHello))),
      (''/w/flat/b.txt'', FileNode (Inr (Inr []))),
      (''/w/empty'', DirNode (Inr [])),
      (''/w/locked'', DirNode (Inr [exFileA, exLocked])),
      (''/w/locked/a.txt'', FileNode (Inr (Inr exHello))),
      (''/w/locked/locked.txt'', FileNode (Inl (New ''permission denied''))),
      (''/w/torn'', DirNode (Inr [exFileA, exTorn])),
      (''/w/torn/a.txt'', FileNode (Inr (Inr exHello))),
      (''/w/torn/torn.txt'', FileNode (Inr (Inl (New ''input/output error'')))),
      (''/w/gone'', DirNode (Inr [exFileA, exGone])),
      (''/w/gone/a.txt'', FileNode (Inr (Inr exHello))),
      (''/w/gone/gone.txt'', FileNode (Inr (Inr exHello))),
      (''/w/hdr'', DirNode (Inr [exFileA, exHdr])),
      (''/w/hdr/a.txt'', FileNode (Inr (Inr exHello))),
      (''/w/hdr/hdr.txt'', FileNode (Inr (Inr exHello))),
      (''/w/dat'', DirNode (Inr [exFileA, exDat])),
      (''/w/dat/a.txt'', FileNode (Inr (Inr exHello))),
      (''/w/dat/dat.txt'', FileNode (Inr (Inr exHello))),
      (''/w/suid'', DirNode (Inr [exSuid])),
      (''/w/suid/run.sh'', FileNode (Inr (Inr exHello)))]"

definition exEnv :: env where
  "exEnv = \<lparr>cwd = Inr ''/w'',
            nodes = map_of exNodes,
            hdrFault = (\<lambda>n. if n = ''hdr.txt'' then Some (New ''sink closed'') else None),
            dataFault = (\<lambda>n. if n = ''dat.txt'' then Some (New ''sink full'') else None),
            padFault = None\<rparr>"

text \<open>The same file system with a sink that never fails.\<close>

definition exEnv2 :: env where
  "exEnv2 = exEnv\<lparr>hdrFault := (\<lambda>n. None), dataFault := (\<lambda>n. None)\<rparr>"

text \<open>The archive of \<open>a.txt\<close> and \<open>b.txt\<close> as the builder returns it.\<close>

definition exArchive :: "tar_item list" where
  "exArchive =
     [HeaderRec \<lparr>Header_Name = ''a.txt'', Header_Size = 5, Header_Mode = 420\<rparr>,
      Content exHello, Padding 507,
      HeaderRec \<lparr>Header_Name = ''b.txt'', Header_Size = 0, Header_Mode = 493\<rparr>]"

text \<open>An error of the "context file read" class that names a phase, a file and a cause.\<close>

definition fileFailure :: "string \<Rightarrow> string \<Rightarrow> goerr \<Rightarrow> goerr \<Rightarrow> bool" where
  "fileFailure phase name cause er =
     (Is er ContextFilesReadErr \<and>
      Error er = ''failed to add file to build request ('' @ phase @ '' '' @ name @ ''):''
                 @ Error cause)"

text \<open>The writer after \<open>a.txt\<close> has been added.\<close>

definition exWriterA :: Writer where
  "exWriterA =
     \<lparr>buf = [HeaderRec \<lparr>Header_Name = ''a.txt'', Header_Size = 5, Header_Mode = 420\<rparr>,
             Content exHello],
      pad = 507, nb = 0, cur = ''a.txt'', err = None\<rparr>"

text \<open>A build API that answers every request with the given log.\<close>

definition exClient :: "LogStream \<Rightarrow> Client" where
  "exClient log = \<lparr>ImageBuild = (\<lambda>rd opts. Inr log)\<rparr>"

definition exLog :: LogStream where
  "exLog = \<lparr>data = ''Step 1/1'' @ [newline] @ ''Successfully built'' @ [newline],
            ending = None\<rparr>"

text \<open>A log that breaks in the middle of its second line.\<close>

definition exBrokenLog :: LogStream where
  "exBrokenLog = \<lparr>data = ''Step 1/1'' @ [newline] @ ''Succ'',
                  ending = Some (New ''unexpected EOF'')\<rparr>"

text \<open>A log whose first line has 65536 bytes, followed by a second line; it ends well.\<close>

definition exLongLog :: LogStream where
  "exLongLog = \<lparr>data = replicate 65536 (CHR ''a'') @ [newline] @ ''ok'' @ [newline],
                ending = None\<rparr>"

section \<open>The writer when a call succeeds\<close>

lemma Flush_ok:
  "Flush e tw = (None, tw') \<Longrightarrow>
     err tw = None \<and> nb tw = 0 \<and> tw' = tw\<lparr>buf := buf tw @ padItems (pad tw), pad := 0\<rparr>"
  by (auto simp: Flush_def padItems_def split: option.splits if_splits)

lemma WriteHeader_ok:
  "WriteHeader e tw hdr = (None, tw') \<Longrightarrow>
     err tw = None \<and> nb tw = 0 \<and>
     tw' = tw\<lparr>buf := buf tw @ padItems (pad tw) @ [HeaderRec hdr],
              pad := blockPadding (nat (Header_Size hdr)),
              nb := nat (Header_Size hdr), cur := Header_Name hdr\<rparr>"
  unfolding WriteHeader_def
  by (auto split: prod.splits option.splits dest!: Flush_ok)

lemma Write_ok:
  "Write e tw b = (None, tw') \<Longrightarrow>
     err tw = None \<and> length b \<le> nb tw \<and>
     tw' = tw\<lparr>buf := buf tw @ fileItems b, nb := nb tw - length b\<rparr>"
  unfolding Write_def Let_def fileItems_def
  by (auto split: option.splits if_splits)

lemma addFile_ok:
  assumes "addFile e src tw d = (Returned u, tw')"
  shows "IsDir d \<Longrightarrow> tw' = tw"
    and "\<not> IsDir d \<Longrightarrow> \<exists>b m. readFile e src (Name d) = Inr b \<and> Info d = Inr m \<and>
           buf tw' = buf tw @ padItems (pad tw) @ [HeaderRec (headerFor d b m)] @ fileItems b"
  using assms unfolding addFile_def Let_def headerFor_def
  by (auto split: if_splits sum.splits prod.splits option.splits dest!: WriteHeader_ok Write_ok)

section \<open>The entries of the buffer\<close>

lemma entriesOf_Header_append:
  "(\<forall>c rest. ys \<noteq> Content c # rest) \<Longrightarrow>
     entriesOf (HeaderRec h # ys) = (h, []) # entriesOf ys"
  by (cases ys rule: entriesOf.cases) auto

lemma entriesOf_append:
  "(\<forall>c rest. ys \<noteq> Content c # rest) \<Longrightarrow>
     entriesOf (xs @ ys) = entriesOf xs @ entriesOf ys"
  by (induction xs rule: entriesOf.induct) (auto simp: entriesOf_Header_append)

lemma entriesOf_file:
  "entriesOf (padItems p @ [HeaderRec h] @ fileItems b) = [(h, b)]"
  by (auto simp: padItems_def fileItems_def)

lemma entriesOf_snoc_file:
  "entriesOf (xs @ padItems p @ [HeaderRec h] @ fileItems b) = entriesOf xs @ [(h, b)]"
proof -
  have "\<forall>c rest. padItems p @ [HeaderRec h] @ fileItems b \<noteq> Content c # rest"
    by (auto simp: padItems_def)
  then show ?thesis
    using entriesOf_append [of "padItems p @ [HeaderRec h] @ fileItems b" xs] entriesOf_file
    by simp
qed

lemma entriesOf_snoc_pad: "entriesOf (xs @ padItems p) = entriesOf xs"
proof -
  have "\<forall>c rest. padItems p \<noteq> Content c # rest"
    by (auto simp: padItems_def)
  then show ?thesis
    using entriesOf_append [of "padItems p" xs] by (simp add: padItems_def)
qed

text \<open>A loop that ends without error has added, for each entry that is not a directory
  and in the order of the listing, one archive entry describing it.\<close>

lemma rangeDir_entries:
  "rangeDir e src tw dir = (Returned u, tw') \<Longrightarrow>
     \<exists>ents. entriesOf (buf tw') = entriesOf (buf tw) @ ents \<and>
            list_all2 (describes e src) (filter (\<lambda>d. \<not> IsDir d) dir) ents"
proof (induction dir arbitrary: tw)
  case Nil
  then show ?case by simp
next
  case (Cons d ds)
  from Cons.prems obtain u1 tw1 where
    step: "addFile e src tw d = (Returned u1, tw1)" and
    rest: "rangeDir e src tw1 ds = (Returned u, tw')"
    by (auto split: prod.splits outcome.splits)
  from Cons.IH [OF rest] obtain ents where
    ents: "entriesOf (buf tw') = entriesOf (buf tw1) @ ents"
      "list_all2 (describes e src) (filter (\<lambda>d. \<not> IsDir d) ds) ents"
    by blast
  show ?case
  proof (cases "IsDir d")
    case True
    with addFile_ok(1) [OF step] ents show ?thesis by auto
  next
    case False
    from addFile_ok(2) [OF step False] obtain b m where
      f: "readFile e src (Name d) = Inr b" "Info d = Inr m"
         "buf tw1 = buf tw @ padItems (pad tw) @ [HeaderRec (headerFor d b m)] @ fileItems b"
      by blast
    have "describes e src d (headerFor d b m, b)"
      using f by (simp add: describes_def)
    moreover have "entriesOf (buf tw1) = entriesOf (buf tw) @ [(headerFor d b m, b)]"
      using f(3) entriesOf_snoc_file by simp
    ultimately show ?thesis using ents False by auto
  qed
qed

lemma allFiles_success:
  assumes "Abs e src = Inr srcAbs" and "ReadDir e srcAbs = Inr dir"
    and "buildRequestReaderWithAllFiles e src = Returned s"
  shows "\<exists>u tw1 tw2. rangeDir e src NewWriter dir = (Returned u, tw1) \<and>
           Flush e tw1 = (None, tw2) \<and> s = buf tw2"
  using assms
  by (auto simp: buildRequestReaderWithAllFiles_def allFilesRun_def allFilesBody_def
           split: prod.splits outcome.splits option.splits)

lemma allFiles_entries:
  assumes "Abs e src = Inr srcAbs" and "ReadDir e srcAbs = Inr dir"
    and "buildRequestReaderWithAllFiles e src = Returned s"
  shows "list_all2 (describes e src) (filter (\<lambda>d. \<not> IsDir d) dir) (entriesOf s)"
proof -
  from allFiles_success [OF assms] obtain u tw1 tw2 where
    r: "rangeDir e src NewWriter dir = (Returned u, tw1)" and
    fl: "Flush e tw1 = (None, tw2)" and s: "s = buf tw2"
    by blast
  from rangeDir_entries [OF r] obtain ents where
    "entriesOf (buf tw1) = entriesOf (buf NewWriter) @ ents"
    "list_all2 (describes e src) (filter (\<lambda>d. \<not> IsDir d) dir) ents"
    by blast
  moreover have "entriesOf (buf tw2) = entriesOf (buf tw1)"
    using Flush_ok [OF fl] entriesOf_snoc_pad by simp
  ultimately show ?thesis using s by (simp add: NewWriter_def)
qed

lemma describes_fields:
  "describes e src d hc \<Longrightarrow>
     readFile e src (Name d) = Inr (snd hc) \<and> Header_Name (fst hc) = Name d \<and>
     Header_Size (fst hc) = int (length (snd hc)) \<and>
     (\<exists>m. Info d = Inr m \<and> Header_Mode (fst hc) = uint m)"
  by (auto simp: describes_def headerFor_def split: sum.splits)

lemma ex_Abs_flat: "Abs exEnv ''flat'' = Inr ''/w/flat''"
  by code_simp

lemma ex_ReadDir_flat: "ReadDir exEnv ''/w/flat'' = Inr [exFileA, exFileB]"
  by code_simp

lemma ex_Abs_ctx: "Abs exEnv ''ctx'' = Inr ''/w/ctx''"
  by code_simp

lemma ex_ReadDir_ctx: "ReadDir exEnv ''/w/ctx'' = Inr [exFileA, exFileB, exSub]"
  by code_simp

lemma ex_build_flat: "buildRequestReaderWithAllFiles exEnv ''flat'' = Returned exArchive"
  by code_simp

lemma ex_build_ctx: "buildRequestReaderWithAllFiles exEnv ''ctx'' = Returned exArchive"
  by code_simp

section \<open>The archive of a directory\<close>






lemma describes_names:
  "list_all2 (describes e src) ds ents \<Longrightarrow> map (Header_Name \<circ> fst) ents = map Name ds"
  by (induction rule: list_all2_induct) (auto dest: describes_fields)

lemma describes_unique:
  "describes e src d x \<Longrightarrow> describes e src d y \<Longrightarrow> x = y"
  by (auto simp: describes_def split: sum.splits)

lemma describes_same_entries:
  "list_all2 (describes e src) ds xs \<Longrightarrow> list_all2 (describes e src) ds ys \<Longrightarrow> xs = ys"
proof (induction ds arbitrary: xs ys)
  case Nil
  then show ?case by simp
next
  case (Cons d ds)
  then show ?case
    by (auto simp: list_all2_Cons1 dest: describes_unique)
qed

lemma describes_cong:
  "readFile e1 src (Name d) = readFile e2 src (Name d) \<Longrightarrow>
     describes e1 src d = describes e2 src d"
  by (rule ext) (simp add: describes_def)

text \<open>
  C5. The names of the entries of a returned archive are, in order, the names of the
  entries of the listing that are not directories; so, names in a listing being distinct,
  no subdirectory of the source is named by an entry, and nothing below the first level is
  archived.
\<close>

theorem C5_no_subdirectory_entry:
  assumes "Abs e src = Inr srcAbs" and "ReadDir e srcAbs = Inr dir"
    and "buildRequestReaderWithAllFiles e src = Returned s"
  shows "map (Header_Name \<circ> fst) (entriesOf s) = map Name (filter (\<lambda>d. \<not> IsDir d) dir) \<and>
         (distinct (map Name dir) \<longrightarrow>
            (\<forall>d \<in> set dir. IsDir d \<longrightarrow> Name d \<notin> set (map (Header_Name \<circ> fst) (entriesOf s))))"
proof -
  have names: "map (Header_Name \<circ> fst) (entriesOf s) = map Name (filter (\<lambda>d. \<not> IsDir d) dir)"
    using allFiles_entries [OF assms] by (rule describes_names)
  have "Name d \<notin> set (map (Header_Name \<circ> fst) (entriesOf s))"
    if dist: "distinct (map Name dir)" and d: "d \<in> set dir" "IsDir d" for d
  proof
    assume "Name d \<in> set (map (Header_Name \<circ> fst) (entriesOf s))"
    with names obtain d' where d': "d' \<in> set dir" "\<not> IsDir d'" "Name d' = Name d"
      by auto
    from dist have "inj_on Name (set dir)"
      by (simp add: distinct_map)
    with d d' have "d' = d"
      by (auto dest: inj_onD)
    with d d' show False by simp
  qed
  with names show ?thesis by blast
qed

theorem C5_witness:
  "map (Header_Name \<circ> fst) (entriesOf exArchive) = [''a.txt'', ''b.txt''] \<and>
   ''sub'' \<notin> set (map (Header_Name \<circ> fst) (entriesOf exArchive))"
proof -
  have dist: "distinct (map Name [exFileA, exFileB, exSub])"
    by (simp add: exFileA_def exFileB_def exSub_def)
  have sub: "exSub \<in> set [exFileA, exFileB, exSub]" "IsDir exSub" "Name exSub = ''sub''"
    by (simp_all add: exSub_def)
  have files: "map Name (filter (\<lambda>d. \<not> IsDir d) [exFileA, exFileB, exSub]) = [''a.txt'', ''b.txt'']"
    by (simp add: exFileA_def exFileB_def exSub_def)
  from C5_no_subdirectory_entry [OF ex_Abs_ctx ex_ReadDir_ctx ex_build_ctx] dist sub files
  show ?thesis by metis
qed

text \<open>
  C8. Two runs of the builder on a directory that has not changed between them (the same
  listing, and the same result of reading each listed file), both returning an archive,
  return archives with the same entries: the same headers with the same contents, in the
  same order. Nothing else of the environment matters.
\<close>

theorem C8_same_entries_on_unchanged_directory:
  assumes "Abs e1 src = Inr a1" and "Abs e2 src = Inr a2"
    and "ReadDir e1 a1 = Inr dir" and "ReadDir e2 a2 = Inr dir"
    and "\<forall>d \<in> set dir. \<not> IsDir d \<longrightarrow> readFile e1 src (Name d) = readFile e2 src (Name d)"
    and "buildRequestReaderWithAllFiles e1 src = Returned s1"
    and "buildRequestReaderWithAllFiles e2 src = Returned s2"
  shows "entriesOf s1 = entriesOf s2"
proof -
  let ?fs = "filter (\<lambda>d. \<not> IsDir d) dir"
  have one: "list_all2 (describes e1 src) ?fs (entriesOf s1)"
    using assms(1,3,6) by (rule allFiles_entries)
  have two: "list_all2 (describes e2 src) ?fs (entriesOf s2)"
    using assms(2,4,7) by (rule allFiles_entries)
  have "describes e2 src d = describes e1 src d" if "d \<in> set ?fs" for d
    using that assms(5) by (auto intro: describes_cong [symmetric])
  then have "list_all2 (describes e1 src) ?fs (entriesOf s2)"
    using two unfolding list_all2_conv_all_nth by (metis nth_mem)
  with one show ?thesis by (rule describes_same_entries)
qed

lemma ex2_Abs_flat: "Abs exEnv2 ''flat'' = Inr ''/w/flat''"
  by code_simp

lemma ex2_ReadDir_flat: "ReadDir exEnv2 ''/w/flat'' = Inr [exFileA, exFileB]"
  by code_simp

lemma ex2_build_flat: "buildRequestReaderWithAllFiles exEnv2 ''flat'' = Returned exArchive"
  by code_simp

theorem C8_witness:
  "buildRequestReaderWithAllFiles exEnv ''flat'' = Returned exArchive \<and>
   buildRequestReaderWithAllFiles exEnv2 ''flat'' = Returned exArchive \<and>
   entriesOf exArchive = entriesOf exArchive"
proof -
  have same: "\<forall>d \<in> set [exFileA, exFileB]. \<not> IsDir d \<longrightarrow>
          readFile exEnv ''flat'' (Name d) = readFile exEnv2 ''flat'' (Name d)"
    by (simp add: readFile_def Open_def resolve_def exEnv2_def exEnv_def)
  from C8_same_entries_on_unchanged_directory
         [OF ex_Abs_flat ex2_Abs_flat ex_ReadDir_flat ex2_ReadDir_flat same
             ex_build_flat ex2_build_flat]
  show ?thesis using ex_build_flat ex2_build_flat by simp
qed

section \<open>Failures while a file is added\<close>

lemma rangeDir_append:
  "rangeDir e src tw (xs @ ys) =
     (case rangeDir e src tw xs of
        (Returned u, tw') \<Rightarrow> rangeDir e src tw' ys
      | (Failed er, tw') \<Rightarrow> (Failed er, tw')
      | (Panicked p, tw') \<Rightarrow> (Panicked p, tw'))"
  by (induction xs arbitrary: tw) (auto split: prod.splits outcome.splits)

text \<open>When the loop stops at an entry, the call ends with what the entry's step ended.\<close>

lemma allFiles_stops_at:
  assumes "Abs e src = Inr srcAbs" and "ReadDir e srcAbs = Inr (pre @ d # post)"
    and "rangeDir e src NewWriter pre = (Returned u, tw)"
  shows "addFile e src tw d = (Failed er, tw') \<Longrightarrow>
           buildRequestReaderWithAllFiles e src = Failed er"
    and "addFile e src tw d = (Panicked p, tw') \<Longrightarrow>
           buildRequestReaderWithAllFiles e src = Panicked p"
  using assms
  by (simp_all add: buildRequestReaderWithAllFiles_def allFilesRun_def allFilesBody_def
        rangeDir_append split: prod.splits)

lemma errorfPhase_fileFailure:
  "fileFailure phase name cause (errorfPhase phase ContextFilesReadErr name cause)"
  by (simp add: fileFailure_def errorfPhase_def ContextFilesReadErr_def)

text \<open>
  C10. The builder reads the mode from what \<open>Info()\<close> returned without looking at the
  error: when the loop reaches an entry that is not a directory, the file's content has
  been read, and \<open>Info()\<close> fails, the call ends in a nil-dereference panic, not in an
  error.
\<close>

theorem C10_failed_info_panics:
  assumes "Abs e src = Inr srcAbs" and "ReadDir e srcAbs = Inr (pre @ d # post)"
    and "rangeDir e src NewWriter pre = (Returned u, tw)"
    and "\<not> IsDir d" and "readFile e src (Name d) = Inr b" and "Info d = Inl er"
  shows "buildRequestReaderWithAllFiles e src =
           Panicked ''invalid memory address or nil pointer dereference''"
proof -
  have "addFile e src tw d = (Panicked ''invalid memory address or nil pointer dereference'', tw)"
    using assms(4-6) by (simp add: addFile_def)
  then show ?thesis by (rule allFiles_stops_at(2) [OF assms(1-3)])
qed

lemma ex_Abs_gone: "Abs exEnv ''gone'' = Inr ''/w/gone''"
  by code_simp

lemma ex_ReadDir_gone: "ReadDir exEnv ''/w/gone'' = Inr ([exFileA] @ exGone # [])"
  by code_simp

lemma ex_rangeDir_gone: "rangeDir exEnv ''gone'' NewWriter [exFileA] = (Returned (), exWriterA)"
  by code_simp

lemma ex_readFile_gone: "readFile exEnv ''gone'' (Name exGone) = Inr exHello"
  by code_simp

theorem C10_witness:
  "buildRequestReaderWithAllFiles exEnv ''gone'' =
     Panicked ''invalid memory address or nil pointer dereference''"
proof -
  have "\<not> IsDir exGone"
    and "Info exGone = Inl (New ''lstat /w/gone/gone.txt: no such file or directory'')"
    by (simp_all add: exGone_def)
  then show ?thesis
    using C10_failed_info_panics
            [OF ex_Abs_gone ex_ReadDir_gone ex_rangeDir_gone _ ex_readFile_gone]
    by blast
qed

text \<open>
  C6. When the loop reaches an entry that is not a directory and opening the file, reading
  it, writing its header or writing its content fails, the call returns an error and no
  archive. The error is of the "context file read" class and its text names the phase and
  the file: \<open>opening\<close> for a file that cannot be opened or read (around the error of
  \<open>readFile\<close>, which says \<open>opening\<close> or \<open>reading\<close>), \<open>writing header\<close>,
  \<open>writing content\<close>.
\<close>

theorem C6_file_failure_is_classified:
  assumes "Abs e src = Inr srcAbs" and "ReadDir e srcAbs = Inr (pre @ d # post)"
    and "rangeDir e src NewWriter pre = (Returned u, tw)"
    and "\<not> IsDir d"
  shows "(\<forall>er. Open e (Join src (Name d)) = Inl er \<longrightarrow>
            (\<exists>inner x. buildRequestReaderWithAllFiles e src = Failed x \<and>
               fileFailure ''opening'' (Name d) inner x \<and>
               fileFailure ''opening'' (Name d) er inner)) \<and>
         (\<forall>er. Open e (Join src (Name d)) = Inr (Inl er) \<longrightarrow>
            (\<exists>inner x. buildRequestReaderWithAllFiles e src = Failed x \<and>
               fileFailure ''opening'' (Name d) inner x \<and>
               fileFailure ''reading'' (Name d) er inner)) \<and>
         (\<forall>b m er tw1.
            readFile e src (Name d) = Inr b \<and> Info d = Inr m \<and>
            WriteHeader e tw (headerFor d b m) = (Some er, tw1) \<longrightarrow>
            (\<exists>x. buildRequestReaderWithAllFiles e src = Failed x \<and>
               fileFailure ''writing header'' (Name d) er x)) \<and>
         (\<forall>b m er tw1 tw2.
            readFile e src (Name d) = Inr b \<and> Info d = Inr m \<and>
            WriteHeader e tw (headerFor d b m) = (None, tw1) \<and>
            Write e tw1 b = (Some er, tw2) \<longrightarrow>
            (\<exists>x. buildRequestReaderWithAllFiles e src = Failed x \<and>
               fileFailure ''writing content'' (Name d) er x))"
proof (intro conjI allI impI)
  fix er
  assume "Open e (Join src (Name d)) = Inl er"
  then have "addFile e src tw d =
      (Failed (errorfPhase ''opening'' ContextFilesReadErr (Name d)
                (errorfPhase ''opening'' ContextFilesReadErr (Name d) er)), tw)"
    using assms(4) by (simp add: addFile_def readFile_def)
  from allFiles_stops_at(1) [OF assms(1-3) this] errorfPhase_fileFailure
  show "\<exists>inner x. buildRequestReaderWithAllFiles e src = Failed x \<and>
          fileFailure ''opening'' (Name d) inner x \<and> fileFailure ''opening'' (Name d) er inner"
    by blast
next
  fix er
  assume "Open e (Join src (Name d)) = Inr (Inl er)"
  then have "addFile e src tw d =
      (Failed (errorfPhase ''opening'' ContextFilesReadErr (Name d)
                (errorfPhase ''reading'' ContextFilesReadErr (Name d) er)), tw)"
    using assms(4) by (simp add: addFile_def readFile_def)
  from allFiles_stops_at(1) [OF assms(1-3) this] errorfPhase_fileFailure
  show "\<exists>inner x. buildRequestReaderWithAllFiles e src = Failed x \<and>
          fileFailure ''opening'' (Name d) inner x \<and> fileFailure ''reading'' (Name d) er inner"
    by blast
next
  fix b m er tw1
  assume "readFile e src (Name d) = Inr b \<and> Info d = Inr m \<and>
          WriteHeader e tw (headerFor d b m) = (Some er, tw1)"
  then have "addFile e src tw d =
      (Failed (errorfPhase ''writing header'' ContextFilesReadErr (Name d) er), tw1)"
    using assms(4) by (simp add: addFile_def headerFor_def)
  from allFiles_stops_at(1) [OF assms(1-3) this] errorfPhase_fileFailure
  show "\<exists>x. buildRequestReaderWithAllFiles e src = Failed x \<and>
          fileFailure ''writing header'' (Name d) er x"
    by blast
next
  fix b m er tw1 tw2
  assume "readFile e src (Name d) = Inr b \<and> Info d = Inr m \<and>
          WriteHeader e tw (headerFor d b m) = (None, tw1) \<and> Write e tw1 b = (Some er, tw2)"
  then have "addFile e src tw d =
      (Failed (errorfPhase ''writing content'' ContextFilesReadErr (Name d) er), tw2)"
    using assms(4) by (simp add: addFile_def headerFor_def)
  from allFiles_stops_at(1) [OF assms(1-3) this] errorfPhase_fileFailure
  show "\<exists>x. buildRequestReaderWithAllFiles e src = Failed x \<and>
          fileFailure ''writing content'' (Name d) er x"
    by blast
qed

lemma ex_Abs_locked: "Abs exEnv ''locked'' = Inr ''/w/locked''"
  by code_simp

lemma ex_ReadDir_locked: "ReadDir exEnv ''/w/locked'' = Inr ([exFileA] @ exLocked # [])"
  by code_simp

lemma ex_rangeDir_locked:
  "rangeDir exEnv ''locked'' NewWriter [exFileA] = (Returned (), exWriterA)"
  by code_simp

lemma ex_Open_locked:
  "Open exEnv (Join ''locked'' (Name exLocked)) = Inl (New ''permission denied'')"
  by code_simp

lemma ex_Abs_torn: "Abs exEnv ''torn'' = Inr ''/w/torn''"
  by code_simp

lemma ex_ReadDir_torn: "ReadDir exEnv ''/w/torn'' = Inr ([exFileA] @ exTorn # [])"
  by code_simp

lemma ex_rangeDir_torn:
  "rangeDir exEnv ''torn'' NewWriter [exFileA] = (Returned (), exWriterA)"
  by code_simp

lemma ex_Open_torn:
  "Open exEnv (Join ''torn'' (Name exTorn)) = Inr (Inl (New ''input/output error''))"
  by code_simp

lemma ex_Abs_hdr: "Abs exEnv ''hdr'' = Inr ''/w/hdr''"
  by code_simp

lemma ex_ReadDir_hdr: "ReadDir exEnv ''/w/hdr'' = Inr ([exFileA] @ exHdr # [])"
  by code_simp

lemma ex_rangeDir_hdr:
  "rangeDir exEnv ''hdr'' NewWriter [exFileA] = (Returned (), exWriterA)"
  by code_simp

lemma ex_fault_hdr:
  "readFile exEnv ''hdr'' (Name exHdr) = Inr exHello \<and> Info exHdr = Inr 420 \<and>
   WriteHeader exEnv exWriterA (headerFor exHdr exHello 420) =
     (Some (New ''sink closed''),
      exWriterA\<lparr>buf := buf exWriterA @ [Padding 507], pad := 0,
                err := Some (New ''sink closed'')\<rparr>)"
  by code_simp

lemma ex_Abs_dat: "Abs exEnv ''dat'' = Inr ''/w/dat''"
  by code_simp

lemma ex_ReadDir_dat: "ReadDir exEnv ''/w/dat'' = Inr ([exFileA] @ exDat # [])"
  by code_simp

lemma ex_rangeDir_dat:
  "rangeDir exEnv ''dat'' NewWriter [exFileA] = (Returned (), exWriterA)"
  by code_simp

lemma ex_fault_dat:
  "readFile exEnv ''dat'' (Name exDat) = Inr exHello \<and> Info exDat = Inr 420 \<and>
   WriteHeader exEnv exWriterA (headerFor exDat exHello 420) =
     (None,
      \<lparr>buf = buf exWriterA @ [Padding 507, HeaderRec (headerFor exDat exHello 420)],
       pad = 507, nb = 5, cur = ''dat.txt'', err = None\<rparr>) \<and>
   Write exEnv
      \<lparr>buf = buf exWriterA @ [Padding 507, HeaderRec (headerFor exDat exHello 420)],
       pad = 507, nb = 5, cur = ''dat.txt'', err = None\<rparr> exHello =
     (Some (New ''sink full''),
      \<lparr>buf = buf exWriterA @ [Padding 507, HeaderRec (headerFor exDat exHello 420)],
       pad = 507, nb = 5, cur = ''dat.txt'', err = Some (New ''sink full'')\<rparr>)"
  by code_simp

theorem C6_witness:
  "(\<exists>inner x. buildRequestReaderWithAllFiles exEnv ''locked'' = Failed x \<and>
      fileFailure ''opening'' ''locked.txt'' inner x \<and>
      fileFailure ''opening'' ''locked.txt'' (New ''permission denied'') inner) \<and>
   (\<exists>inner x. buildRequestReaderWithAllFiles exEnv ''torn'' = Failed x \<and>
      fileFailure ''opening'' ''torn.txt'' inner x \<and>
      fileFailure ''reading'' ''torn.txt'' (New ''input/output error'') inner) \<and>
   (\<exists>x. buildRequestReaderWithAllFiles exEnv ''hdr'' = Failed x \<and>
      fileFailure ''writing header'' ''hdr.txt'' (New ''sink closed'') x) \<and>
   (\<exists>x. buildRequestReaderWithAllFiles exEnv ''dat'' = Failed x \<and>
      fileFailure ''writing content'' ''dat.txt'' (New ''sink full'') x)"
proof -
  have nd: "\<not> IsDir exLocked" "\<not> IsDir exTorn" "\<not> IsDir exHdr" "\<not> IsDir exDat"
    and nm: "Name exLocked = ''locked.txt''" "Name exTorn = ''torn.txt''"
            "Name exHdr = ''hdr.txt''" "Name exDat = ''dat.txt''"
    by (simp_all add: exLocked_def exTorn_def exHdr_def exDat_def)
  note a = C6_file_failure_is_classified [OF ex_Abs_locked ex_ReadDir_locked ex_rangeDir_locked nd(1)]
  note b = C6_file_failure_is_classified [OF ex_Abs_torn ex_ReadDir_torn ex_rangeDir_torn nd(2)]
  note c = C6_file_failure_is_classified [OF ex_Abs_hdr ex_ReadDir_hdr ex_rangeDir_hdr nd(3)]
  note d = C6_file_failure_is_classified [OF ex_Abs_dat ex_ReadDir_dat ex_rangeDir_dat nd(4)]
  have one: "\<exists>inner x. buildRequestReaderWithAllFiles exEnv ''locked'' = Failed x \<and>
      fileFailure ''opening'' ''locked.txt'' inner x \<and>
      fileFailure ''opening'' ''locked.txt'' (New ''permission denied'') inner"
    using a ex_Open_locked nm(1) by metis
  have two: "\<exists>inner x. buildRequestReaderWithAllFiles exEnv ''torn'' = Failed x \<and>
      fileFailure ''opening'' ''torn.txt'' inner x \<and>
      fileFailure ''reading'' ''torn.txt'' (New ''input/output error'') inner"
    using b ex_Open_torn nm(2) by metis
  have three: "\<exists>x. buildRequestReaderWithAllFiles exEnv ''hdr'' = Failed x \<and>
      fileFailure ''writing header'' ''hdr.txt'' (New ''sink closed'') x"
    using c ex_fault_hdr nm(3) by metis
  have four: "\<exists>x. buildRequestReaderWithAllFiles exEnv ''dat'' = Failed x \<and>
      fileFailure ''writing content'' ''dat.txt'' (New ''sink full'') x"
    using d ex_fault_dat nm(4) by metis
  from one two three four show ?thesis by blast
qed

section \<open>A source path that leads nowhere\<close>

lemma Abs_fails:
  "Abs e src = Inl er \<Longrightarrow>
     buildRequestReaderWithAllFiles e src = Failed (errorfColon DockerfileNotFoundErr er)"
  by (simp add: buildRequestReaderWithAllFiles_def allFilesRun_def)

text \<open>
  C1, as the code has it. \<open>filepath.Abs\<close> does not look at the file system, so a source
  path that does not exist passes it; the builder then lists the directory, the listing
  fails, and the call returns the "context directory read" error around the error of the
  listing. That error is not of the "context path not found" kind.
\<close>

theorem C1_missing_path_fails_at_listing:
  assumes "Abs e src = Inr srcAbs" and "resolve e srcAbs = None"
  shows "ReadDir e srcAbs = Inl (ENOENT ''open'' srcAbs) \<and>
         buildRequestReaderWithAllFiles e src =
           Failed (errorfColon ContextDirReadErr (ENOENT ''open'' srcAbs)) \<and>
         Is (errorfColon ContextDirReadErr (ENOENT ''open'' srcAbs)) ContextDirReadErr \<and>
         \<not> Is (errorfColon ContextDirReadErr (ENOENT ''open'' srcAbs)) DockerfileNotFoundErr"
  using assms
  by (simp add: buildRequestReaderWithAllFiles_def allFilesRun_def allFilesBody_def
        ReadDir_def errorfColon_def ContextDirReadErr_def DockerfileNotFoundErr_def ENOENT_def
        split: prod.splits)

lemma ex_Abs_nope: "Abs exEnv ''nope'' = Inr ''/w/nope''"
  by code_simp

lemma ex_resolve_nope: "resolve exEnv ''/w/nope'' = None"
  by code_simp

theorem C1_witness:
  "ReadDir exEnv ''/w/nope'' = Inl (ENOENT ''open'' ''/w/nope'') \<and>
   buildRequestReaderWithAllFiles exEnv ''nope'' =
     Failed (errorfColon ContextDirReadErr (ENOENT ''open'' ''/w/nope'')) \<and>
   Is (errorfColon ContextDirReadErr (ENOENT ''open'' ''/w/nope'')) ContextDirReadErr \<and>
   \<not> Is (errorfColon ContextDirReadErr (ENOENT ''open'' ''/w/nope'')) DockerfileNotFoundErr"
  using C1_missing_path_fails_at_listing [OF ex_Abs_nope ex_resolve_nope] .

text \<open>
  C1 as stated fails: \<open>/w/nope\<close> does not exist, and the builder called with \<open>nope\<close> in
  \<open>/w\<close> returns the error of the directory listing, which is not a "context path not
  found" error.
\<close>

theorem C1_counterexample:
  "resolve exEnv ''/w/nope'' = None \<and>
   buildRequestReaderWithAllFiles exEnv ''nope'' =
     Failed (errorfColon ContextDirReadErr (New ''open /w/nope: no such file or directory'')) \<and>
   \<not> Is (errorfColon ContextDirReadErr (New ''open /w/nope: no such file or directory''))
        DockerfileNotFoundErr"
  by code_simp

section \<open>The end of the archive\<close>

lemma addFile_no_ZeroBlock:
  assumes "addFile e src tw d = (Returned u, tw')" and "ZeroBlock \<notin> set (buf tw)"
  shows "ZeroBlock \<notin> set (buf tw')"
proof (cases "IsDir d")
  case True
  with addFile_ok(1) [OF assms(1)] assms(2) show ?thesis by simp
next
  case False
  from addFile_ok(2) [OF assms(1) False] obtain b m where
    "buf tw' = buf tw @ padItems (pad tw) @ [HeaderRec (headerFor d b m)] @ fileItems b"
    by blast
  with assms(2) show ?thesis
    by (auto simp: padItems_def fileItems_def split: if_splits)
qed

lemma rangeDir_no_ZeroBlock:
  "rangeDir e src tw dir = (Returned u, tw') \<Longrightarrow> ZeroBlock \<notin> set (buf tw) \<Longrightarrow>
     ZeroBlock \<notin> set (buf tw')"
proof (induction dir arbitrary: tw)
  case Nil
  then show ?case by simp
next
  case (Cons d ds)
  from Cons.prems(1) obtain u1 tw1 where
    step: "addFile e src tw d = (Returned u1, tw1)" and
    rest: "rangeDir e src tw1 ds = (Returned u, tw')"
    by (auto split: prod.splits outcome.splits)
  from addFile_no_ZeroBlock [OF step Cons.prems(2)] Cons.IH [OF rest]
  show ?case by blast
qed

text \<open>No archive the builder returns holds a block of the end-of-archive marker.\<close>

lemma returned_archive_has_no_marker:
  assumes "buildRequestReaderWithAllFiles e src = Returned s"
  shows "ZeroBlock \<notin> set s" and "\<not> terminated s"
proof -
  from assms obtain srcAbs where a: "Abs e src = Inr srcAbs"
    by (cases "Abs e src") (auto simp: buildRequestReaderWithAllFiles_def allFilesRun_def)
  from assms a obtain dir where d: "ReadDir e srcAbs = Inr dir"
    by (cases "ReadDir e srcAbs")
       (auto simp: buildRequestReaderWithAllFiles_def allFilesRun_def allFilesBody_def
             split: prod.splits)
  from allFiles_success [OF a d assms] obtain u tw1 tw2 where
    r: "rangeDir e src NewWriter dir = (Returned u, tw1)" and
    fl: "Flush e tw1 = (None, tw2)" and s: "s = buf tw2"
    by blast
  have "ZeroBlock \<notin> set (buf tw1)"
    using rangeDir_no_ZeroBlock [OF r] by (simp add: NewWriter_def)
  then show z: "ZeroBlock \<notin> set s"
    using Flush_ok [OF fl] s by (auto simp: padItems_def)
  show "\<not> terminated s"
  proof
    assume "terminated s"
    then have "drop (length s - 2) s = [ZeroBlock, ZeroBlock]"
      by (simp add: terminated_def)
    then have "ZeroBlock \<in> set (drop (length s - 2) s)" by simp
    then have "ZeroBlock \<in> set s" by (rule in_set_dropD)
    with z show False by simp
  qed
qed

text \<open>
  C2, at the directory \<open>flat\<close>. The builder returns the archive of \<open>a.txt\<close> and \<open>b.txt\<close>
  with the padding that \<open>Flush\<close> wrote, and without the end-of-archive marker: the deferred
  \<open>Close\<close> writes the marker into the buffer after the returned bytes have been taken.
\<close>

theorem C2_returned_archive_lacks_marker:
  "buildRequestReaderWithAllFiles exEnv ''flat'' = Returned exArchive \<and>
   \<not> terminated exArchive \<and>
   bufferAfterReturn exEnv ''flat'' = exArchive @ [ZeroBlock, ZeroBlock] \<and>
   terminated (bufferAfterReturn exEnv ''flat'')"
  by code_simp

text \<open>An empty directory, when the sink takes the empty padding, gives no bytes at all.\<close>

lemma empty_directory_returns_nothing:
  assumes "Abs e src = Inr srcAbs" and "ReadDir e srcAbs = Inr []" and "padFault e = None"
  shows "buildRequestReaderWithAllFiles e src = Returned []"
  using assms
  by (simp add: buildRequestReaderWithAllFiles_def allFilesRun_def allFilesBody_def
        Flush_def NewWriter_def split: prod.splits)

text \<open>
  C4, at the directory \<open>empty\<close>. The builder returns no error and an archive without
  entries, which is the empty byte sequence: the two zero blocks that make an archive
  without entries are in the buffer only after the deferred \<open>Close\<close>, and not in what the
  caller received.
\<close>

theorem C4_empty_directory_returns_no_bytes:
  "ReadDir exEnv ''/w/empty'' = Inr [] \<and>
   buildRequestReaderWithAllFiles exEnv ''empty'' = Returned [] \<and>
   \<not> terminated [] \<and>
   bufferAfterReturn exEnv ''empty'' = [ZeroBlock, ZeroBlock]"
  by code_simp

section \<open>Relaying the build log\<close>

lemma scanLines_too_long:
  "MaxScanTokenSize \<le> length (takeWhile (\<lambda>c. c \<noteq> newline) d) \<Longrightarrow>
     scanLines d en = ([], Some ErrTooLong)"
  by (subst scanLines.simps) simp

lemma no_newline_whole:
  "dropWhile (\<lambda>c. c \<noteq> newline) d = [] \<Longrightarrow> takeWhile (\<lambda>c. c \<noteq> newline) d = d"
  by (metis append_Nil2 takeWhile_dropWhile_id)

text \<open>While every line fits the buffer, the scanner yields the lines of the stream, and
  its error is how the stream ended.\<close>

lemma scanLines_short_lines:
  "\<forall>l \<in> set (linesOf d). length l < MaxScanTokenSize \<Longrightarrow>
     scanLines d en = (map dropCR (linesOf d), en)"
proof (induction d rule: linesOf.induct)
  case (1 d)
  show ?case
  proof (cases "dropWhile (\<lambda>c. c \<noteq> newline) d")
    case Nil
    then have whole: "takeWhile (\<lambda>c. c \<noteq> newline) d = d"
      by (rule no_newline_whole)
    have lines: "linesOf d = (if d = [] then [] else [d])"
      by (subst linesOf.simps) (simp only: Nil list.case)
    have "length d < MaxScanTokenSize"
      using "1.prems" lines by (cases "d = []") (auto simp: MaxScanTokenSize_def)
    then have "scanLines d en = (if d = [] then [] else [dropCR d], en)"
      by (subst scanLines.simps) (simp only: whole Nil list.case, simp)
    then show ?thesis
      using lines by simp
  next
    case (Cons c rest)
    have lines: "linesOf d = takeWhile (\<lambda>c. c \<noteq> newline) d # linesOf rest"
      using Cons by (subst linesOf.simps) simp
    have short: "length (takeWhile (\<lambda>c. c \<noteq> newline) d) < MaxScanTokenSize"
      and rest: "\<forall>l \<in> set (linesOf rest). length l < MaxScanTokenSize"
      using "1.prems" lines by auto
    from "1.IH" [OF Cons rest]
    have "scanLines rest en = (map dropCR (linesOf rest), en)" .
    then show ?thesis
      using Cons short lines by (subst scanLines.simps) simp
  qed
qed

text \<open>
  C7, as the code has it. After a successful call of the build API, when every line of
  the log is shorter than the scanner's buffer of 65536 bytes, \<open>Build\<close> prints the lines of
  the log in their order up to the end of the stream, and returns the read error when the
  stream ended with one, and no error otherwise.
\<close>

theorem C7_log_lines_relayed_in_order:
  assumes "buildRequestReaderWithAllFiles e src = Returned rd"
    and "ImageBuild c rd \<lparr>Tags = [''eldius/test-image'']\<rparr> = Inr body"
    and "\<forall>l \<in> set (linesOf (data body)). length l < MaxScanTokenSize"
  shows "out (Build c e src) = map dropCR (linesOf (data body)) \<and>
         result (Build c e src) =
           (case ending body of None \<Rightarrow> Returned () | Some er \<Rightarrow> Failed er)"
  using assms(1,2) scanLines_short_lines [OF assms(3), of "ending body"]
  by (simp add: Build_def)

lemma ex_linesOf_broken: "linesOf (data exBrokenLog) = [''Step 1/1'', ''Succ'']"
  by code_simp

lemma ex_linesOf_log: "linesOf (data exLog) = [''Step 1/1'', ''Successfully built'']"
  by code_simp

theorem C7_witness:
  "out (Build (exClient exBrokenLog) exEnv ''flat'') = [''Step 1/1'', ''Succ''] \<and>
   result (Build (exClient exBrokenLog) exEnv ''flat'') = Failed (New ''unexpected EOF'') \<and>
   out (Build (exClient exLog) exEnv ''flat'') = [''Step 1/1'', ''Successfully built''] \<and>
   result (Build (exClient exLog) exEnv ''flat'') = Returned ()"
proof -
  have api: "ImageBuild (exClient exBrokenLog) exArchive \<lparr>Tags = [''eldius/test-image'']\<rparr>
               = Inr exBrokenLog"
       "ImageBuild (exClient exLog) exArchive \<lparr>Tags = [''eldius/test-image'']\<rparr> = Inr exLog"
    by (simp_all add: exClient_def)
  have short: "\<forall>l \<in> set (linesOf (data exBrokenLog)). length l < MaxScanTokenSize"
       "\<forall>l \<in> set (linesOf (data exLog)). length l < MaxScanTokenSize"
    by (simp_all add: ex_linesOf_broken ex_linesOf_log MaxScanTokenSize_def)
  have "dropCR ''Step 1/1'' = ''Step 1/1''" "dropCR ''Succ'' = ''Succ''"
       "dropCR ''Successfully built'' = ''Successfully built''"
    by (simp_all add: dropCR_def)
  moreover have "ending exBrokenLog = Some (New ''unexpected EOF'')" "ending exLog = None"
    by (simp_all add: exBrokenLog_def exLog_def)
  ultimately show ?thesis
    using C7_log_lines_relayed_in_order [OF ex_build_flat api(1) short(1)]
          C7_log_lines_relayed_in_order [OF ex_build_flat api(2) short(2)]
    by (simp add: ex_linesOf_broken ex_linesOf_log)
qed

lemma takeWhile_run:
  "a \<noteq> newline \<Longrightarrow>
     takeWhile (\<lambda>c. c \<noteq> newline) (replicate n a @ newline # r) = replicate n a"
  by (induction n) auto

lemma dropWhile_run:
  "a \<noteq> newline \<Longrightarrow>
     dropWhile (\<lambda>c. c \<noteq> newline) (replicate n a @ newline # r) = newline # r"
  by (induction n) auto

lemma ex_long_data:
  "data exLongLog = replicate 65536 (CHR ''a'') @ newline # ''ok'' @ [newline]"
  by (simp add: exLongLog_def)

lemma ex_long_first_line:
  "takeWhile (\<lambda>c. c \<noteq> newline) (data exLongLog) = replicate 65536 (CHR ''a'')"
  unfolding ex_long_data by (rule takeWhile_run) (simp add: newline_def)

lemma ex_long_rest:
  "dropWhile (\<lambda>c. c \<noteq> newline) (data exLongLog) = newline # ''ok'' @ [newline]"
  unfolding ex_long_data by (rule dropWhile_run) (simp add: newline_def)

lemma ex_long_lines: "linesOf (data exLongLog) = [replicate 65536 (CHR ''a''), ''ok'']"
proof -
  have "linesOf (''ok'' @ [newline]) = [''ok'']" by code_simp
  then show ?thesis
    using ex_long_first_line ex_long_rest by (subst linesOf.simps) simp
qed

text \<open>
  C7 as stated fails: the log \<open>exLongLog\<close> has two lines and ends without a read error;
  \<open>Build\<close> prints neither line and returns the scanner's \<open>ErrTooLong\<close>.
\<close>

theorem C7_counterexample:
  "linesOf (data exLongLog) = [replicate 65536 (CHR ''a''), ''ok''] \<and>
   ending exLongLog = None \<and>
   out (Build (exClient exLongLog) exEnv ''flat'') = [] \<and>
   result (Build (exClient exLongLog) exEnv ''flat'') = Failed ErrTooLong"
proof -
  have "MaxScanTokenSize \<le> length (takeWhile (\<lambda>c. c \<noteq> newline) (data exLongLog))"
    by (simp add: ex_long_first_line MaxScanTokenSize_def)
  then have "scanLines (data exLongLog) (ending exLongLog) = ([], Some ErrTooLong)"
    by (rule scanLines_too_long)
  moreover have "ending exLongLog = None" by (simp add: exLongLog_def)
  ultimately show ?thesis
    using ex_long_lines ex_build_flat by (simp add: Build_def exClient_def)
qed

section \<open>The build options\<close>

text \<open>
  C9, as the code has it. Whatever the caller passes, \<open>Build\<close> calls the build API at most
  once, when the builder has returned an archive, and the options of that call hold the
  one tag \<open>eldius/test-image\<close> written in the code. The build command adds nothing: it
  passes its one argument on as the source path.
\<close>

theorem C9_tag_is_fixed:
  "requests (Build c e src) =
     (case buildRequestReaderWithAllFiles e src of
        Returned rd \<Rightarrow> [(rd, \<lparr>Tags = [''eldius/test-image'']\<rparr>)]
      | Failed er \<Rightarrow> []
      | Panicked p \<Rightarrow> []) \<and>
   requests (buildCmd_Run (Inr c) e args) = requests (Build c e (args ! 0))"
  by (simp add: Build_def buildCmd_Run_def Let_def
           split: outcome.splits sum.splits prod.splits)

text \<open>
  C9 as stated fails: the build command run with the argument \<open>flat\<close> sends the tag
  \<open>eldius/test-image\<close>, which is nothing the caller supplied.
\<close>

theorem C9_counterexample:
  "map (\<lambda>r. Tags (snd r)) (requests (buildCmd_Run (Inr (exClient exLog)) exEnv [''flat'']))
     = [[''eldius/test-image'']] \<and>
   ''eldius/test-image'' \<notin> set [''flat'']"
  using ex_build_flat
  by (simp add: buildCmd_Run_def Build_def exClient_def Let_def
           split: prod.splits outcome.splits)

end
